theory Spec2Isabelle
  imports Complex_Main
begin

section \<open>Streamlines and the length filter\<close>

text \<open>
  The tool is one function, \<^verbatim>\<open>run(context)\<close> in \<^verbatim>\<open>src/tool.py\<close>. Its numeric arrays are
  numpy float arrays; they are read here as arrays of reals, flattened to lists in a
  fixed voxel order, and the arithmetic is exact except in \<^verbatim>\<open>np.arange\<close> of line 180,
  where the number of thresholds depends on the rounding and the rounding is written
  out. A streamline is the sequence of its points, a bundle the sequence of its
  streamlines (dipy's \<^verbatim>\<open>Streamlines\<close>).
\<close>

type_synonym point = "real \<times> real \<times> real"
type_synonym streamline = "point list"
type_synonym streamlines = "streamline list"

datatype error = ValueError | IndexError | UnboundLocalError

definition norm3 :: "point \<Rightarrow> point \<Rightarrow> real" where
  "norm3 p q =
     (case p of (x1, y1, z1) \<Rightarrow> case q of (x2, y2, z2) \<Rightarrow>
        sqrt ((x2 - x1)\<^sup>2 + (y2 - y1)\<^sup>2 + (z2 - z1)\<^sup>2))"

text \<open>
  Modelled from the spec: \<^verbatim>\<open>dipy.tracking.streamlinespeed.length\<close> is library code outside
  \<^verbatim>\<open>src/\<close>. Section 3 of the spec: the length of a streamline is the sum of consecutive
  point-to-point Euclidean distances. \<open>length_sl\<close> is the length of one streamline,
  \<open>length_streamlines\<close> the array \<^verbatim>\<open>length(streamlines)\<close>, one length for each streamline.
  What the library returns for a bundle without any streamline is not part of the model.
\<close>

fun length_sl :: "streamline \<Rightarrow> real" where
  "length_sl (p # q # ps) = norm3 p q + length_sl (q # ps)"
| "length_sl _ = 0"

definition length_streamlines :: "streamlines \<Rightarrow> real list" where
  "length_streamlines ss = map length_sl ss"

text \<open>\<^verbatim>\<open>lengths > c\<close>: the elementwise comparison of an array with a scalar.\<close>

definition gt_mask :: "real list \<Rightarrow> real \<Rightarrow> bool list" where
  "gt_mask xs c = map (\<lambda>x. c < x) xs"

text \<open>\<^verbatim>\<open>xs[mask]\<close>: indexing with a boolean array keeps the entries at the true positions.\<close>

definition bool_index :: "'a list \<Rightarrow> bool list \<Rightarrow> 'a list" where
  "bool_index xs msk = map fst (filter snd (zip xs msk))"

text \<open>
  Lines 173--174 and 196--197:
  \<^verbatim>\<open>lengths = length(streamlines); streamlines = streamlines[lengths > 1]\<close>.
\<close>

definition length_filter :: "streamlines \<Rightarrow> streamlines" where
  "length_filter streamlines =
     (let lengths = length_streamlines streamlines
      in bool_index streamlines (gt_mask lengths 1))"

text \<open>
  The spec speaks of a configurable minimum length; the source has the constant 1.
  \<open>length_filter_min\<close> is the same two lines with the constant as a parameter.
\<close>

definition length_filter_min :: "real \<Rightarrow> streamlines \<Rightarrow> streamlines" where
  "length_filter_min m streamlines =
     (let lengths = length_streamlines streamlines
      in bool_index streamlines (gt_mask lengths m))"

section \<open>The density quantizer\<close>

text \<open>
  \<^verbatim>\<open>np.log10\<close> returns \<^verbatim>\<open>-inf\<close> at 0 and \<^verbatim>\<open>nan\<close> below 0 (with a warning, no exception), so
  the log-density volume holds values of \<open>fval\<close>.
\<close>

datatype fval = Finite real | NegInf | NaN

definition np_log10 :: "real \<Rightarrow> fval" where
  "np_log10 x = (if x < 0 then NaN else if x = 0 then NegInf else Finite (log 10 x))"

text \<open>Line 178: \<^verbatim>\<open>log_density = np.log10(density + 1)\<close>.\<close>

definition log_density_of :: "real list \<Rightarrow> fval list" where
  "log_density_of density = map (\<lambda>d. np_log10 (d + 1)) density"

text \<open>\<^verbatim>\<open>np.max\<close>: \<^verbatim>\<open>nan\<close> propagates, and an empty array raises \<^verbatim>\<open>ValueError\<close>.\<close>

fun fmax :: "fval \<Rightarrow> fval \<Rightarrow> fval" where
  "fmax NaN y = NaN"
| "fmax x NaN = NaN"
| "fmax NegInf y = y"
| "fmax x NegInf = x"
| "fmax (Finite a) (Finite b) = Finite (max a b)"

fun np_max :: "fval list \<Rightarrow> error + fval" where
  "np_max [] = Inl ValueError"
| "np_max (x # xs) = Inr (fold fmax xs x)"

text \<open>
  Line 180 computes in doubles: the maximum is a \<^verbatim>\<open>float32\<close> scalar, and its quotient by
  the integer 200 is a double under the promotion rules of numpy 1, the numpy of the
  libraries this code calls (\<^verbatim>\<open>get_data()\<close> is gone from the nibabel that supports
  numpy 2). \<open>float64\<close> rounds a real to the nearest double, ties to the even mantissa
  (\<open>rne\<close> rounds to the nearest integer, ties to even), with 53 bits of mantissa and
  without overflow or underflow, which a quotient by 200 of a \<^verbatim>\<open>float32\<close> maximum cannot
  reach.
\<close>

definition rne :: "real \<Rightarrow> int" where
  "rne y =
     (let f = \<lfloor>y\<rfloor>; r = y - of_int f
      in if r < 1 / 2 then f else if 1 / 2 < r then f + 1 else if even f then f else f + 1)"

definition float64 :: "real \<Rightarrow> real" where
  "float64 x =
     (if x = 0 then 0
      else let u = 2 powr of_int (\<lfloor>log 2 \<bar>x\<bar>\<rfloor> - 52) in u * of_int (rne (x / u)))"

text \<open>
  \<^verbatim>\<open>np.arange(start, stop, step)\<close>: numpy computes the number of entries as
  \<^verbatim>\<open>ceil((stop - start) / step)\<close> and entry \<open>i\<close> as \<^verbatim>\<open>start + i * step\<close>, every operation
  rounded; its documentation warns that with a step that is not an integer the last
  entry may reach \<^verbatim>\<open>stop\<close>. With a zero step the quotient is \<^verbatim>\<open>nan\<close> or infinite and numpy
  raises \<^verbatim>\<open>ValueError\<close> (\<^verbatim>\<open>arange: cannot compute length\<close>,
  \<^verbatim>\<open>Maximum allowed size exceeded\<close>).
\<close>

definition np_arange :: "real \<Rightarrow> real \<Rightarrow> real \<Rightarrow> error + real list" where
  "np_arange start stop step =
     (if step = 0 then Inl ValueError
      else Inr (map (\<lambda>i. float64 (start + float64 (real i * step)))
                 [0..<nat \<lceil>float64 (float64 (stop - start) / step)\<rceil>]))"

text \<open>
  Line 180: \<^verbatim>\<open>np.arange(0, max_density, max_density / 200)\<close>. A maximum of \<^verbatim>\<open>-inf\<close> or
  \<^verbatim>\<open>nan\<close> gives the quotient \<^verbatim>\<open>nan\<close>, hence \<^verbatim>\<open>ValueError\<close> again.
\<close>

definition thresholds :: "fval \<Rightarrow> error + real list" where
  "thresholds max_density =
     (case max_density of
        Finite m \<Rightarrow> np_arange 0 m (float64 (m / 200))
      | NegInf \<Rightarrow> Inl ValueError
      | NaN \<Rightarrow> Inl ValueError)"

text \<open>Line 183: \<^verbatim>\<open>mask = log_density >= t\<close>; comparisons with \<^verbatim>\<open>nan\<close> and \<^verbatim>\<open>-inf\<close> are false.\<close>

fun fge :: "fval \<Rightarrow> real \<Rightarrow> bool" where
  "fge (Finite r) t = (t \<le> r)"
| "fge NegInf t = False"
| "fge NaN t = False"

definition ge_mask :: "fval list \<Rightarrow> real \<Rightarrow> bool list" where
  "ge_mask log_density t = map (\<lambda>v. fge v t) log_density"

text \<open>Line 186: \<^verbatim>\<open>mask.astype("int32")\<close>.\<close>

definition astype_int32 :: "bool list \<Rightarrow> int list" where
  "astype_int32 msk = map of_bool msk"

text \<open>
  Lines 180--187: the loop over \<^verbatim>\<open>enumerate(np.arange(...))\<close>. Each iteration writes one
  volume; the model returns the triples (index, threshold, volume) in the order written.
\<close>

type_synonym operating_point = "nat \<times> real \<times> int list"

definition threshold_loop :: "fval list \<Rightarrow> real list \<Rightarrow> operating_point list" where
  "threshold_loop log_density ts =
     map (\<lambda>(i, t). (i, t, astype_int32 (ge_mask log_density t))) (enumerate 0 ts)"

text \<open>Lines 178--187 (and 209--218), from the smoothed density volume to the stack.\<close>

definition quantize :: "real list \<Rightarrow> error + operating_point list" where
  "quantize density =
     (let log_density = log_density_of density in
      case np_max log_density of
        Inl e \<Rightarrow> Inl e
      | Inr max_density \<Rightarrow>
          (case thresholds max_density of
             Inl e \<Rightarrow> Inl e
           | Inr ts \<Rightarrow> Inr (threshold_loop log_density ts)))"

section \<open>Visitation counts and the connectivity filter\<close>

text \<open>
  A voxel is an index triple; \<open>to_voxel\<close> stands for dipy's map from a point to the index
  of the voxel holding it (\<^verbatim>\<open>_to_voxel_coordinates\<close> with the run's affine) and is a
  parameter of the model. \<open>voxels\<close> lists the indices of an array of a given shape in
  numpy's C order, which is the order of every flattened volume here.
\<close>

type_synonym voxel = "int \<times> int \<times> int"
type_synonym shape = "nat \<times> nat \<times> nat"

definition in_bounds :: "shape \<Rightarrow> voxel \<Rightarrow> bool" where
  "in_bounds shp v =
     (case shp of (n1, n2, n3) \<Rightarrow> case v of (i, j, k) \<Rightarrow>
        0 \<le> i \<and> i < int n1 \<and> 0 \<le> j \<and> j < int n2 \<and> 0 \<le> k \<and> k < int n3)"

definition voxels :: "shape \<Rightarrow> voxel list" where
  "voxels shp =
     (case shp of (n1, n2, n3) \<Rightarrow>
        concat (map (\<lambda>i. concat (map (\<lambda>j. map (\<lambda>k. (int i, int j, int k)) [0..<n3])
          [0..<n2])) [0..<n1]))"

text \<open>
  Modelled from the spec: \<^verbatim>\<open>dipy.tracking.utils.density_map\<close> is library code outside
  \<^verbatim>\<open>src/\<close>. Section 4.5, point 2: for every voxel, count how many streamlines pass
  through it. The library counts a streamline once for every voxel that holds one of its
  points, and raises \<^verbatim>\<open>IndexError\<close> for a point outside the volume.
\<close>

definition density_map :: "(point \<Rightarrow> voxel) \<Rightarrow> shape \<Rightarrow> streamlines \<Rightarrow> error + nat list" where
  "density_map to_voxel vol_dims ss =
     (if list_all (list_all (\<lambda>p. in_bounds vol_dims (to_voxel p))) ss
      then Inr (map (\<lambda>v. length (filter (\<lambda>sl. v \<in> set (map to_voxel sl)) ss))
                 (voxels vol_dims))
      else Inl IndexError)"

text \<open>
  \<^verbatim>\<open>label_volume[i, j, k]\<close> along a streamline: the ROI volume is a map from the indices
  it has to labels, and an index it does not have raises \<^verbatim>\<open>IndexError\<close>.
\<close>

fun labels_along :: "(voxel \<rightharpoonup> nat) \<Rightarrow> voxel list \<Rightarrow> error + nat list" where
  "labels_along label_volume [] = Inr []"
| "labels_along label_volume (v # vs) =
     (case label_volume v of
        None \<Rightarrow> Inl IndexError
      | Some l \<Rightarrow>
          (case labels_along label_volume vs of
             Inl e \<Rightarrow> Inl e
           | Inr ls \<Rightarrow> Inr (l # ls)))"

text \<open>\<^verbatim>\<open>list(OrderedDict.fromkeys(xs))\<close>: the distinct entries, in order of first occurrence.\<close>

definition ordered_fromkeys :: "'a list \<Rightarrow> 'a list" where
  "ordered_fromkeys xs = rev (remdups (rev xs))"

text \<open>\<^verbatim>\<open>itertools.combinations(xs, 2)\<close>.\<close>

fun combinations2 :: "'a list \<Rightarrow> ('a \<times> 'a) list" where
  "combinations2 [] = []"
| "combinations2 (x # xs) = map (Pair x) xs @ combinations2 xs"

text \<open>
  Modelled from the spec: \<^verbatim>\<open>dipy.tracking.utils.connectivity_matrix\<close> is library code
  outside \<^verbatim>\<open>src/\<close>; the call of line 200 selects \<^verbatim>\<open>inclusive=True\<close>, the default
  \<^verbatim>\<open>symmetric=True\<close>, and a mapping to streamline indices. Section 4.4: for each
  streamline the ordered set of distinct non-zero ROI labels it passes through, anywhere
  along its length; the streamlines are grouped by the unordered pair of labels they
  connect, and a streamline that touches fewer than two distinct labels is in no group.
  \<open>roi_labels\<close> is that ordered set: label 0 is dropped, the others are kept once each, in
  the order in which the streamline first meets them. An edge is (smaller label, larger
  label, index of the streamline); \<open>grouping_of\<close> is the \<^verbatim>\<open>defaultdict(list)\<close> returned as
  the mapping, which answers a missing key with the empty list.
\<close>

definition roi_labels :: "nat list \<Rightarrow> nat list" where
  "roi_labels labels = ordered_fromkeys (filter (\<lambda>l. l \<noteq> 0) labels)"

definition streamline_edges :: "nat list \<Rightarrow> nat \<Rightarrow> (nat \<times> nat \<times> nat) list" where
  "streamline_edges labels sl =
     map (\<lambda>(a, b). (min a b, max a b, sl)) (combinations2 (roi_labels labels))"

fun edges_from ::
  "(voxel \<rightharpoonup> nat) \<Rightarrow> (point \<Rightarrow> voxel) \<Rightarrow> nat \<Rightarrow> streamlines \<Rightarrow> error + (nat \<times> nat \<times> nat) list" where
  "edges_from label_volume to_voxel sl [] = Inr []"
| "edges_from label_volume to_voxel sl (s # ss) =
     (case labels_along label_volume (map to_voxel s) of
        Inl e \<Rightarrow> Inl e
      | Inr labels \<Rightarrow>
          (case edges_from label_volume to_voxel (Suc sl) ss of
             Inl e \<Rightarrow> Inl e
           | Inr es \<Rightarrow> Inr (streamline_edges labels sl @ es)))"

definition grouping_of :: "(nat \<times> nat \<times> nat) list \<Rightarrow> nat \<times> nat \<Rightarrow> nat list" where
  "grouping_of edges key = map (\<lambda>(a, b, c). c) (filter (\<lambda>(a, b, c). (a, b) = key) edges)"

definition connectivity_matrix ::
  "(voxel \<rightharpoonup> nat) \<Rightarrow> (point \<Rightarrow> voxel) \<Rightarrow> streamlines \<Rightarrow> error + (nat \<times> nat \<Rightarrow> nat list)" where
  "connectivity_matrix label_volume to_voxel ss =
     (case edges_from label_volume to_voxel 0 ss of
        Inl e \<Rightarrow> Inl e
      | Inr edges \<Rightarrow> Inr (grouping_of edges))"


text \<open>\<^verbatim>\<open>xs[indices]\<close>: indexing with a list of indices (all of them in range here).\<close>

definition index_list :: "'a list \<Rightarrow> nat list \<Rightarrow> 'a list" where
  "index_list xs idx = map (\<lambda>i. xs ! i) idx"

text \<open>Lines 199--204: the connectivity filter with the target pair \<open>(0, 1)\<close>.\<close>

definition connectivity_filter ::
  "(voxel \<rightharpoonup> nat) \<Rightarrow> (point \<Rightarrow> voxel) \<Rightarrow> streamlines \<Rightarrow> error + streamlines" where
  "connectivity_filter rois to_voxel ss =
     (case connectivity_matrix rois to_voxel ss of
        Inl e \<Rightarrow> Inl e
      | Inr grouping \<Rightarrow> Inr (index_list ss (grouping (0, 1))))"


section \<open>The post-processing of \<^verbatim>\<open>run\<close>\<close>

text \<open>
  What lines 168--219 take from outside: the affine (as \<open>to_voxel\<close>), the shape of the
  seed image, scipy's \<^verbatim>\<open>gaussian_filter(..., 0.5)\<close> and the ROI label volume.
\<close>

record env =
  to_voxel :: "point \<Rightarrow> voxel"
  vol_dims :: shape
  gaussian_filter :: "real list \<Rightarrow> real list"
  rois :: "voxel \<rightharpoonup> nat"

text \<open>
  The variables the two branches share: \<^verbatim>\<open>streamlines\<close>, which both branches reassign,
  and the stack each branch has written.
\<close>

record state =
  streamlines :: streamlines
  vol_epfl :: "operating_point list option"
  vol_vumc :: "operating_point list option"

text \<open>Lines 175--187 and 206--218: density map, smoothing, quantizer.\<close>

definition density_stack :: "env \<Rightarrow> streamlines \<Rightarrow> error + operating_point list" where
  "density_stack e ss =
     (case density_map (to_voxel e) (vol_dims e) ss of
        Inl err \<Rightarrow> Inl err
      | Inr counts \<Rightarrow> quantize (gaussian_filter e (map real counts)))"

text \<open>Lines 168--188, the branch for \<^verbatim>\<open>"EPFL"\<close> and \<^verbatim>\<open>"ALL"\<close>.\<close>

definition epfl_branch :: "env \<Rightarrow> state \<Rightarrow> error + state" where
  "epfl_branch e s =
     (let s1 = s\<lparr>streamlines := length_filter (streamlines s)\<rparr> in
      case density_stack e (streamlines s1) of
        Inl err \<Rightarrow> Inl err
      | Inr stack \<Rightarrow> Inr (s1\<lparr>vol_epfl := Some stack\<rparr>))"

text \<open>Lines 196--197, the length filter of the branch for \<^verbatim>\<open>"VUMC"\<close> and \<^verbatim>\<open>"ALL"\<close>.\<close>

definition vumc_length_filter :: "state \<Rightarrow> state" where
  "vumc_length_filter s = s\<lparr>streamlines := length_filter (streamlines s)\<rparr>"

text \<open>Lines 199--219, the rest of that branch.\<close>

definition vumc_connectivity :: "env \<Rightarrow> state \<Rightarrow> error + state" where
  "vumc_connectivity e s =
     (case connectivity_filter (rois e) (to_voxel e) (streamlines s) of
        Inl err \<Rightarrow> Inl err
      | Inr kept \<Rightarrow>
          (let s1 = s\<lparr>streamlines := kept\<rparr> in
           case density_stack e (streamlines s1) of
             Inl err \<Rightarrow> Inl err
           | Inr stack \<Rightarrow> Inr (s1\<lparr>vol_vumc := Some stack\<rparr>)))"

definition vumc_branch :: "env \<Rightarrow> state \<Rightarrow> error + state" where
  "vumc_branch e s = vumc_connectivity e (vumc_length_filter s)"

text \<open>Lines 168--219: the two \<^verbatim>\<open>if postprocessing in [...]\<close> statements in sequence.\<close>

definition postprocess :: "env \<Rightarrow> string \<Rightarrow> streamlines \<Rightarrow> error + state" where
  "postprocess e mode tracked =
     (let s0 = \<lparr>streamlines = tracked, vol_epfl = None, vol_vumc = None\<rparr> in
      case (if mode \<in> set [''EPFL'', ''ALL''] then epfl_branch e s0 else Inr s0) of
        Inl err \<Rightarrow> Inl err
      | Inr s1 \<Rightarrow>
          (if mode \<in> set [''VUMC'', ''ALL''] then vumc_branch e s1 else Inr s1))"

section \<open>The inputs and the direction getter\<close>

text \<open>
  The analysis context: the two settings \<^verbatim>\<open>run\<close> reads and, for each query of
  \<^verbatim>\<open>get_files('input', ...)\<close>, the paths its files download to. \<^verbatim>\<open>set_progress\<close> is the
  list of messages, returned beside the result.
\<close>

datatype query = Modality string | Reg_expression string

record analysis_context =
  dataset :: string
  postprocessing :: string
  get_files :: "query \<Rightarrow> string list"

text \<open>\<^verbatim>\<open>context.get_files(...)[0].download('/root/')\<close>: no file raises \<^verbatim>\<open>IndexError\<close>.\<close>

definition first_file :: "analysis_context \<Rightarrow> query \<Rightarrow> error + string" where
  "first_file c q = (case get_files c q of [] \<Rightarrow> Inl IndexError | f # _ \<Rightarrow> Inr f)"

text \<open>
  The three local variables that only the branches of lines 36--56 bind; \<open>None\<close> is an
  unbound variable.
\<close>

record dwi_paths =
  dwi_file_path :: "string option"
  bvalues_file_path :: "string option"
  bvecs_file_path :: "string option"

definition fetch3 ::
  "analysis_context \<Rightarrow> query \<Rightarrow> query \<Rightarrow> query \<Rightarrow> error + dwi_paths" where
  "fetch3 c q1 q2 q3 =
     (case first_file c q1 of Inl err \<Rightarrow> Inl err | Inr dwi \<Rightarrow>
     (case first_file c q2 of Inl err \<Rightarrow> Inl err | Inr bvalues \<Rightarrow>
     (case first_file c q3 of Inl err \<Rightarrow> Inl err | Inr bvecs \<Rightarrow>
        Inr \<lparr>dwi_file_path = Some dwi, bvalues_file_path = Some bvalues,
             bvecs_file_path = Some bvecs\<rparr>)))"

text \<open>Lines 36--56. The last branch reports and binds nothing.\<close>

definition fetch_dwi :: "analysis_context \<Rightarrow> string list \<times> (error + dwi_paths)" where
  "fetch_dwi c =
     (if dataset c = ''HCPL'' then
        ([], fetch3 c (Modality ''HARDI'') (Reg_expression ''.*prep.bvalues.hcpl.txt'')
               (Reg_expression ''.*prep.gradients.hcpl.txt''))
      else if dataset c = ''DSI'' then
        ([], fetch3 c (Modality ''DSI'') (Reg_expression ''.*prep.bvalues.txt'')
               (Reg_expression ''.*prep.gradients.txt''))
      else
        ([''Wrong dataset parameter''],
         Inr \<lparr>dwi_file_path = None, bvalues_file_path = None, bvecs_file_path = None\<rparr>))"

text \<open>Reading a local variable: an unbound one raises \<^verbatim>\<open>UnboundLocalError\<close>.\<close>

definition read_local :: "'a option \<Rightarrow> error + 'a" where
  "read_local v = (case v of None \<Rightarrow> Inl UnboundLocalError | Some x \<Rightarrow> Inr x)"

text \<open>The two constructors of lines 133 and 142.\<close>

datatype direction_getter = From_shcoeff | From_pmf

text \<open>
  Lines 121--145: the second test of the dataset, which has no last branch; \<open>None\<close> leaves
  \<^verbatim>\<open>prob_dg\<close> unbound.
\<close>

definition make_prob_dg :: "analysis_context \<Rightarrow> string list \<times> direction_getter option" where
  "make_prob_dg c =
     (if dataset c = ''HCPL'' then
        ([''Processing voxel-wise FOD estimation.''], Some From_shcoeff)
      else if dataset c = ''DSI'' then
        ([''Processing voxel-wise DSI estimation.''], Some From_pmf)
      else ([], None))"

text \<open>
  Lines 31--151, as far as the direction getter reaches the tracker: the progress messages
  and either the error that ends the run or the direction getter handed to
  \<^verbatim>\<open>LocalTracking\<close>. The library calls in between (loading, mask, tensor fit, seeds)
  are taken to succeed.
\<close>

definition run_setup :: "analysis_context \<Rightarrow> string list \<times> (error + direction_getter)" where
  "run_setup c =
     (case fetch_dwi c of (log1, r) \<Rightarrow>
     (case r of Inl err \<Rightarrow> (log1, Inl err) | Inr paths \<Rightarrow>
     (case first_file c (Reg_expression ''.*prep.inject.nii.gz'') of
        Inl err \<Rightarrow> (log1, Inl err) | Inr inject_file_path \<Rightarrow>
     (case first_file c (Reg_expression ''.*VUMC_ROIs.nii.gz'') of
        Inl err \<Rightarrow> (log1, Inl err) | Inr VUMC_ROIs_file_path \<Rightarrow>
     (case read_local (dwi_file_path paths) of
        Inl err \<Rightarrow> (log1, Inl err) | Inr dwi \<Rightarrow>
     (case read_local (bvalues_file_path paths) of
        Inl err \<Rightarrow> (log1, Inl err) | Inr bvalues \<Rightarrow>
     (case read_local (bvecs_file_path paths) of
        Inl err \<Rightarrow> (log1, Inl err) | Inr bvecs \<Rightarrow>
     (case make_prob_dg c of (log2, prob_dg) \<Rightarrow>
        (log1 @ [''Processing voxel-wise DTI metrics.''] @ log2 @ [''Processing tractography.''],
         read_local prob_dg)))))))))"

section \<open>A small instance\<close>

text \<open>
  A grid of four voxels in a row with the labels 0, 1, 2 and 5, points mapped to the
  voxel whose corner is their integer part, and a smoothing that leaves the counts as
  they are; it serves to evaluate the definitions on concrete bundles.
\<close>

definition ex_env :: env where
  "ex_env = \<lparr>to_voxel = (\<lambda>(x, y, z). (\<lfloor>x\<rfloor>, \<lfloor>y\<rfloor>, \<lfloor>z\<rfloor>)), vol_dims = (4, 1, 1),
     gaussian_filter = (\<lambda>d. d),
     rois = [(0, 0, 0) \<mapsto> 0, (1, 0, 0) \<mapsto> 1, (2, 0, 0) \<mapsto> 2, (3, 0, 0) \<mapsto> 5]\<rparr>"

section \<open>Properties of the length filter\<close>

lemma bool_index_filter:
  "bool_index xs (map P xs) = filter P xs"
  by (induction xs) (simp_all add: bool_index_def)

lemma length_filter_min_eq:
  "length_filter_min m ss = filter (\<lambda>s. m < length_sl s) ss"
  by (simp add: length_filter_min_def length_streamlines_def gt_mask_def
      bool_index_filter [symmetric] comp_def)

lemma length_filter_eq:
  "length_filter ss = filter (\<lambda>s. 1 < length_sl s) ss"
  by (simp add: length_filter_def length_streamlines_def gt_mask_def
      bool_index_filter [symmetric] comp_def)

lemma length_filter_idem: "length_filter (length_filter ss) = length_filter ss"
  by (simp add: length_filter_eq)

text \<open>
  Claim C5. The length filter keeps exactly the streamlines whose length, the sum of the
  distances between consecutive points, is greater than 1, in their order, and drops
  those of length at most 1; of two streamlines of lengths 0.5 and 2.0 only the second
  is kept.
\<close>

theorem length_filter_retains:
  "length_filter ss = filter (\<lambda>s. 1 < length_sl s) ss
   \<and> (s \<in> set (length_filter ss) \<longleftrightarrow> s \<in> set ss \<and> 1 < length_sl s)
   \<and> (length_sl a = 1 / 2 \<and> length_sl b = 2 \<longrightarrow> length_filter [a, b] = [b])"
  by (simp add: length_filter_eq)

theorem length_filter_retains_witness:
  "length_sl [(0, 0, 0), (1 / 2, 0, 0)] = 1 / 2 \<and> length_sl [(0, 0, 0), (2, 0, 0)] = 2
   \<and> length_filter [[(0, 0, 0), (1 / 2, 0, 0)], [(0, 0, 0), (2, 0, 0)]] = [[(0, 0, 0), (2, 0, 0)]]"
  using length_filter_retains
    [of "[[(0, 0, 0), (1 / 2, 0, 0)], [(0, 0, 0), (2, 0, 0)]]" "[(0, 0, 0), (2, 0, 0)]"
        "[(0, 0, 0), (1 / 2, 0, 0)]" "[(0, 0, 0), (2, 0, 0)]"]
  by (simp add: norm3_def)

lemma voxels_411: "voxels (4, 1, 1) = [(0, 0, 0), (1, 0, 0), (2, 0, 0), (3, 0, 0)]"
  by (simp add: voxels_def upt_rec)

lemma density_map_empty:
  "density_map tv dims [] = Inr (replicate (length (voxels dims)) 0)"
  by (simp add: density_map_def map_replicate_const)

lemma ex_lf_short: "length_filter [[(0, 0, 0), (1 / 2, 0, 0)]] = []"
  by (simp add: length_filter_eq norm3_def)

lemma ex_lf: "length_filter [[(0, 0, 0), (2, 0, 0)], [(0, 0, 0), (1 / 2, 0, 0)]] = [[(0, 0, 0), (2, 0, 0)]]"
  by (simp add: length_filter_eq norm3_def)

lemma ex_dm: "density_map (\<lambda>(x, y, z). (\<lfloor>x\<rfloor>, \<lfloor>y\<rfloor>, \<lfloor>z\<rfloor>)) (4, 1, 1) [[(0, 0, 0), (2, 0, 0)]] = Inr [1, 0, 1, 0]"
  unfolding density_map_def voxels_411 by (simp add: in_bounds_def)

section \<open>Properties of the visitation count\<close>

lemma filter_min_subset:
  "m1 \<le> m2 \<Longrightarrow> length_filter_min m2 ss = filter (\<lambda>s. m2 < length_sl s) (length_filter_min m1 ss)"
  by (auto simp: length_filter_min_eq intro!: filter_cong)

lemma count_filter_conj_le:
  "length (filter (\<lambda>x. P x \<and> R x) xs) \<le> length (filter R xs)"
  by (induction xs) auto

lemma count_filter_le:
  "length (filter R (filter P xs)) \<le> length (filter R xs)"
  by (induction xs) auto

lemma density_map_filter:
  assumes "density_map tv dims xs = Inr d1"
  shows "\<exists>d2. density_map tv dims (filter P xs) = Inr d2 \<and> sum_list d2 \<le> sum_list d1
           \<and> length d2 = length d1 \<and> (\<forall>k<length d1. d2 ! k \<le> d1 ! k)"
proof -
  have a: "list_all (list_all (\<lambda>p. in_bounds dims (tv p))) xs"
    using assms by (auto simp: density_map_def split: if_splits)
  then have b: "list_all (list_all (\<lambda>p. in_bounds dims (tv p))) (filter P xs)"
    by (auto simp: list_all_iff)
  have d1: "d1 = map (\<lambda>v. length (filter (\<lambda>sl. v \<in> set (map tv sl)) xs)) (voxels dims)"
    using assms a by (simp add: density_map_def)
  let ?d2 = "map (\<lambda>v. length (filter (\<lambda>sl. v \<in> set (map tv sl)) (filter P xs))) (voxels dims)"
  have d2: "density_map tv dims (filter P xs) = Inr ?d2" using b by (simp add: density_map_def)
  have s: "sum_list ?d2 \<le> sum_list d1" unfolding d1
    by (rule sum_list_mono) (rule count_filter_le)
  have n: "\<forall>k<length d1. ?d2 ! k \<le> d1 ! k" unfolding d1 by (simp add: count_filter_conj_le)
  show ?thesis using d2 s n d1 by simp
qed

lemma ex_lfm0:
  "length_filter_min 0 [[(0, 0, 0), (2, 0, 0)], [(0, 0, 0), (1 / 2, 0, 0)]]
     = [[(0, 0, 0), (2, 0, 0)], [(0, 0, 0), (1 / 2, 0, 0)]]"
  by (simp add: length_filter_min_eq norm3_def)

lemma ex_lfm1:
  "length_filter_min 1 [[(0, 0, 0), (2, 0, 0)], [(0, 0, 0), (1 / 2, 0, 0)]]
     = [[(0, 0, 0), (2, 0, 0)]]"
  by (simp add: length_filter_min_eq norm3_def)

lemma ex_dm2:
  "density_map (\<lambda>(x, y, z). (\<lfloor>x\<rfloor>, \<lfloor>y\<rfloor>, \<lfloor>z\<rfloor>)) (4, 1, 1)
     [[(0, 0, 0), (2, 0, 0)], [(0, 0, 0), (1 / 2, 0, 0)]] = Inr [2, 0, 1, 0]"
  unfolding density_map_def voxels_411 by (simp add: in_bounds_def)

text \<open>
  Claim C8. For minima \<open>m1 \<le> m2\<close> of the length filter, whenever the density map of the
  bundle filtered at \<open>m1\<close> exists, so does the one at \<open>m2\<close>, and its total over the grid
  is at most the total at \<open>m1\<close>: the summed density does not decrease as the minimum
  decreases.
\<close>

theorem density_total_monotone:
  assumes "m1 \<le> m2" and "density_map tv dims (length_filter_min m1 ss) = Inr d1"
  shows "\<exists>d2. density_map tv dims (length_filter_min m2 ss) = Inr d2 \<and> sum_list d2 \<le> sum_list d1"
  using density_map_filter [OF assms(2)] filter_min_subset [OF assms(1)] by metis

theorem density_total_monotone_witness:
  "(0::real) \<le> 1
   \<and> density_map (\<lambda>(x, y, z). (\<lfloor>x\<rfloor>, \<lfloor>y\<rfloor>, \<lfloor>z\<rfloor>)) (4, 1, 1)
       (length_filter_min 0 [[(0, 0, 0), (2, 0, 0)], [(0, 0, 0), (1 / 2, 0, 0)]]) = Inr [2, 0, 1, 0]
   \<and> density_map (\<lambda>(x, y, z). (\<lfloor>x\<rfloor>, \<lfloor>y\<rfloor>, \<lfloor>z\<rfloor>)) (4, 1, 1)
       (length_filter_min 1 [[(0, 0, 0), (2, 0, 0)], [(0, 0, 0), (1 / 2, 0, 0)]]) = Inr [1, 0, 1, 0]
   \<and> sum_list [1, 0, 1, 0 :: nat] \<le> sum_list [2, 0, 1, 0]"
proof -
  have h1: "(0::real) \<le> 1" by simp
  have h2: "density_map (\<lambda>(x, y, z). (\<lfloor>x\<rfloor>, \<lfloor>y\<rfloor>, \<lfloor>z\<rfloor>)) (4, 1, 1)
       (length_filter_min 0 [[(0, 0, 0), (2, 0, 0)], [(0, 0, 0), (1 / 2, 0, 0)]]) = Inr [2, 0, 1, 0]"
    by (simp only: ex_lfm0 ex_dm2)
  have e: "density_map (\<lambda>(x, y, z). (\<lfloor>x\<rfloor>, \<lfloor>y\<rfloor>, \<lfloor>z\<rfloor>)) (4, 1, 1)
       (length_filter_min 1 [[(0, 0, 0), (2, 0, 0)], [(0, 0, 0), (1 / 2, 0, 0)]]) = Inr [1, 0, 1, 0]"
    by (simp only: ex_lfm1 ex_dm)
  from density_total_monotone [OF h1 h2] e have "sum_list [1, 0, 1, 0 :: nat] \<le> sum_list [2, 0, 1, 0]"
    by auto
  then show ?thesis using h1 h2 e by blast
qed

section \<open>Properties of the connectivity filter\<close>























section \<open>Properties of the set-up\<close>

lemma run_setup_wrong_dataset:
  assumes "dataset c \<noteq> ''HCPL''" and "dataset c \<noteq> ''DSI''"
    and "get_files c (Reg_expression ''.*prep.inject.nii.gz'') \<noteq> []"
    and "get_files c (Reg_expression ''.*VUMC_ROIs.nii.gz'') \<noteq> []"
  shows "run_setup c = ([''Wrong dataset parameter''], Inl UnboundLocalError)"
  using assms
  by (simp add: run_setup_def fetch_dwi_def first_file_def read_local_def split: list.splits)

text \<open>
  Claim C4. For a dataset other than \<^verbatim>\<open>"HCPL"\<close> and \<^verbatim>\<open>"DSI"\<close> the claim is an immediate,
  clear error. The code reports \<^verbatim>\<open>Wrong dataset parameter\<close> as a progress message, goes on
  to fetch the seed and ROI files, and ends at the first read of \<^verbatim>\<open>dwi_file_path\<close> with
  \<^verbatim>\<open>UnboundLocalError\<close>; here for the dataset \<^verbatim>\<open>"HCP"\<close>.
\<close>

theorem wrong_dataset_unbound_local:
  "run_setup \<lparr>dataset = ''HCP'', postprocessing = ''ALL'', get_files = (\<lambda>q. [''/root/input''])\<rparr>
     = ([''Wrong dataset parameter''], Inl UnboundLocalError)"
  by (rule run_setup_wrong_dataset) simp_all

section \<open>Properties of the rounding\<close>

lemma rne_error: "\<bar>of_int (rne y) - y\<bar> \<le> 1 / 2"
  unfolding rne_def Let_def by (auto simp: abs_le_iff)

lemma float64_zero: "float64 0 = 0"
  by (simp add: float64_def)

lemma float64_eval:
  assumes "x \<noteq> 0" and "2 powr of_int e \<le> \<bar>x\<bar>" and "\<bar>x\<bar> < 2 powr of_int (e + 1)"
  shows "float64 x = 2 powr of_int (e - 52) * of_int (rne (x / 2 powr of_int (e - 52)))"
proof -
  have "of_int e \<le> log 2 \<bar>x\<bar>" using assms by (simp add: le_log_iff)
  moreover have "log 2 \<bar>x\<bar> < of_int (e + 1)" using assms by (simp add: log_less_iff)
  ultimately have "\<lfloor>log 2 \<bar>x\<bar>\<rfloor> = e" by (simp add: floor_unique)
  then show ?thesis using assms(1) by (simp add: float64_def Let_def)
qed

text \<open>The relative error of one rounding is at most \<open>2\<^sup>-\<^sup>5\<^sup>3\<close>.\<close>

lemma float64_error: "\<bar>float64 x - x\<bar> \<le> \<bar>x\<bar> / 2 ^ 53"
proof (cases "x = 0")
  case True
  then show ?thesis by (simp add: float64_def)
next
  case False
  define e where "e = \<lfloor>log 2 \<bar>x\<bar>\<rfloor>"
  define u :: real where "u = 2 powr of_int (e - 52)"
  have u0: "0 < u" by (simp add: u_def)
  have f: "float64 x = u * of_int (rne (x / u))"
    using False by (simp add: float64_def Let_def e_def u_def)
  have "float64 x - x = u * (of_int (rne (x / u)) - x / u)"
    using u0 by (simp add: f right_diff_distrib)
  then have "\<bar>float64 x - x\<bar> = u * \<bar>of_int (rne (x / u)) - x / u\<bar>"
    using u0 by (simp add: abs_mult)
  also have "\<dots> \<le> u * (1 / 2)"
    using u0 rne_error [of "x / u"] by (simp add: mult_left_mono)
  finally have b: "\<bar>float64 x - x\<bar> \<le> u / 2" by simp
  have "of_int e \<le> log 2 \<bar>x\<bar>" by (simp add: e_def)
  then have "2 powr of_int e \<le> \<bar>x\<bar>" using False by (simp add: le_log_iff)
  moreover have "u = 2 powr of_int e / 2 ^ 52"
    by (simp add: u_def powr_diff)
  ultimately have "u / 2 \<le> \<bar>x\<bar> / 2 ^ 53" by (simp add: field_simps)
  then show ?thesis using b by linarith
qed

lemma float64_bounds:
  assumes "0 < x"
  shows "999 / 1000 * x \<le> float64 x" and "float64 x \<le> 1001 / 1000 * x"
proof -
  have "(1000::real) \<le> 2 ^ 53" by simp
  then have "x / 2 ^ 53 \<le> x / 1000" using assms by (simp add: frac_le)
  then have "\<bar>float64 x - x\<bar> \<le> x / 1000" using float64_error [of x] assms by simp
  then show "999 / 1000 * x \<le> float64 x" and "float64 x \<le> 1001 / 1000 * x"
    by linarith+
qed

lemma float64_pos: "0 < x \<Longrightarrow> 0 < float64 x"
  using float64_bounds(1) [of x] by (simp add: less_le_trans)

text \<open>The number of entries of \<^verbatim>\<open>np.arange(0, m, m / 200)\<close> is 200 or 201.\<close>

lemma arange_count:
  assumes "0 < m"
  shows "\<lceil>float64 (float64 (m - 0) / float64 (m / 200))\<rceil> = 200
       \<or> \<lceil>float64 (float64 (m - 0) / float64 (m / 200))\<rceil> = 201"
proof -
  define a where "a = float64 (m - 0)"
  define b where "b = float64 (m / 200)"
  have a: "999 / 1000 * m \<le> a" "a \<le> 1001 / 1000 * m"
    using float64_bounds [of m] assms by (simp_all add: a_def)
  have b: "999 / 1000 * (m / 200) \<le> b" "b \<le> 1001 / 1000 * (m / 200)"
    using float64_bounds [of "m / 200"] assms by (simp_all add: b_def)
  have b0: "0 < b" using b(1) assms by simp
  have r1: "1996 / 10 \<le> a / b"
    using a b b0 by (simp add: le_divide_eq)
  have r2: "a / b \<le> 2005 / 10"
    using a b b0 by (simp add: divide_le_eq)
  have r0: "0 < a / b" using r1 by linarith
  have q: "999 / 1000 * (a / b) \<le> float64 (a / b)" "float64 (a / b) \<le> 1001 / 1000 * (a / b)"
    using float64_bounds [OF r0] by simp_all
  have "199 < float64 (a / b)" using q(1) r1 by simp
  then have l: "200 \<le> \<lceil>float64 (a / b)\<rceil>"
    by (simp add: less_ceiling_iff [symmetric] del: less_ceiling_iff)
  have "float64 (a / b) \<le> 201" using q(2) r2 by simp
  then have "\<lceil>float64 (a / b)\<rceil> \<le> 201" by (simp add: ceiling_le_iff)
  then show ?thesis using l unfolding a_def b_def by linarith
qed

text \<open>Up to index 200 the entries increase strictly.\<close>

lemma arange_spacing:
  assumes "0 < s" and "i < j" and "j \<le> 200"
  shows "float64 (0 + float64 (real i * s)) < float64 (0 + float64 (real j * s))"
proof -
  have js: "0 < real j * s" using assms by simp
  then have yj: "999 / 1000 * (real j * s) \<le> float64 (real j * s)"
    using float64_bounds(1) by blast
  then have yj0: "0 < float64 (real j * s)" using js by simp
  have tj: "999 / 1000 * float64 (real j * s) \<le> float64 (0 + float64 (real j * s))"
    using float64_bounds(1) [OF yj0] by simp
  have gap: "real i * s + s \<le> real j * s"
  proof -
    have "real i + 1 \<le> real j" using assms(2) by simp
    then have "(real i + 1) * s \<le> real j * s"
      using assms(1) by (simp only: mult_right_mono less_imp_le)
    then show ?thesis by (simp add: algebra_simps)
  qed
  have cap: "real i * s \<le> 199 * s"
  proof -
    have "real i \<le> 199" using assms(2,3) by simp
    then show ?thesis using assms(1) by (simp only: mult_right_mono less_imp_le)
  qed
  show ?thesis
  proof (cases "i = 0")
    case True
    then show ?thesis using tj yj0 by (simp add: float64_zero)
  next
    case False
    then have ipos: "0 < real i * s" using assms(1) by simp
    then have yi: "float64 (real i * s) \<le> 1001 / 1000 * (real i * s)"
      using float64_bounds(2) by blast
    have yi0: "0 < float64 (real i * s)" using ipos by (rule float64_pos)
    have ti: "float64 (0 + float64 (real i * s)) \<le> 1001 / 1000 * float64 (real i * s)"
      using float64_bounds(2) [OF yi0] by simp
    show ?thesis using ti yi tj yj gap cap assms(1) by linarith
  qed
qed

text \<open>
  Rounding a number whose unit in the last place is \<open>2\<^sup>-\<^sup>n\<close>; it evaluates \<open>float64\<close> on a
  given rational.
\<close>

lemma float64_eval_ulp:
  assumes "2 ^ 52 \<le> \<bar>x\<bar> * 2 ^ n" and "\<bar>x\<bar> * 2 ^ n < 2 ^ 53"
  shows "float64 x = of_int (rne (x * 2 ^ n)) / 2 ^ n"
proof -
  have p: "2 powr of_int (52 - int n + k) = 2 ^ (52 + nat k) / (2 ^ n :: real)" if "0 \<le> k" for k
  proof -
    have "(of_int (52 - int n + k) :: real) = real (52 + nat k) - real n"
      using that by simp
    then have "(2::real) powr of_int (52 - int n + k) = 2 powr (real (52 + nat k) - real n)"
      by (simp only:)
    also have "\<dots> = 2 powr real (52 + nat k) / 2 powr real n" by (rule powr_diff)
    finally show ?thesis by (simp only: powr_realpow zero_less_numeral)
  qed
  have x0: "x \<noteq> 0" using assms(1) by auto
  have u: "2 powr of_int (52 - int n - 52) = 1 / (2 ^ n :: real)"
    by (simp add: powr_minus_divide powr_realpow)
  have e0: "(2::real) powr of_int (52 - int n) = 2 ^ 52 / 2 ^ n"
    using p [of 0] by simp
  have e1: "(2::real) powr of_int (52 - int n + 1) = 2 ^ 53 / 2 ^ n"
    using p [of 1] by simp
  have "(2::real) ^ 52 / 2 ^ n \<le> \<bar>x\<bar>"
    using assms(1) by (simp only: pos_divide_le_eq zero_less_power zero_less_numeral)
  then have lo: "2 powr of_int (52 - int n) \<le> \<bar>x\<bar>" by (simp only: e0)
  have "\<bar>x\<bar> < (2::real) ^ 53 / 2 ^ n"
    using assms(2) by (simp only: pos_less_divide_eq zero_less_power zero_less_numeral)
  then have hi: "\<bar>x\<bar> < 2 powr of_int (52 - int n + 1)" by (simp only: e1)
  show ?thesis
    using float64_eval [OF x0 lo hi] by (simp only: u) simp
qed

text \<open>The three roundings of line 180 for the maximum \<open>57/16 = 3.5625\<close>.\<close>

lemma step_eval: "float64 (57 / 3200) = 5134103575202365 / 2 ^ 58"
  by (subst float64_eval_ulp [where n = 58]) (simp_all add: rne_def Let_def)

lemma stop_eval: "float64 (57 / 16) = 57 / 16"
  by (subst float64_eval_ulp [where n = 51]) (simp_all add: rne_def Let_def)

lemma quot_eval: "float64 ((57 / 16) / (5134103575202365 / 2 ^ 58)) = 7036874417766401 / 2 ^ 45"
  by (subst float64_eval_ulp [where n = 45]) (simp_all add: rne_def Let_def)

lemma count_eval: "\<lceil>float64 (float64 (57 / 16 - 0) / float64 ((57 / 16) / 200))\<rceil> = 201"
proof -
  have s: "(57 / 16 :: real) - 0 = 57 / 16" by simp
  have d: "(57 / 16 :: real) / 200 = 57 / 3200" by simp
  show ?thesis unfolding s d step_eval stop_eval quot_eval by simp
qed

section \<open>Properties of the quantizer\<close>

subsection \<open>The maximum and the thresholds\<close>

lemma fmax_NaN_right: "fmax a NaN = NaN"
  by (cases a) simp_all

lemma fold_fmax_NaN: "fold fmax xs NaN = NaN"
  by (induction xs) (simp_all add: fmax_NaN_right)

lemma fmax_fge1: "fge a t \<Longrightarrow> fmax y a \<noteq> NaN \<Longrightarrow> fge (fmax y a) t"
  by (cases y; cases a) auto

lemma fmax_fge2: "fge y t \<Longrightarrow> fmax y a \<noteq> NaN \<Longrightarrow> fge (fmax y a) t"
  by (cases y; cases a) auto

lemma fold_fmax_acc: "fold fmax xs a = Finite m \<Longrightarrow> fge a t \<Longrightarrow> t \<le> m"
proof (induction xs arbitrary: a)
  case Nil
  then show ?case by simp
next
  case (Cons y ys)
  have "fmax y a \<noteq> NaN" using Cons.prems(1) by (auto simp: fold_fmax_NaN)
  then show ?case using Cons by (auto intro: fmax_fge1)
qed

lemma fold_fmax_mem: "fold fmax xs a = Finite m \<Longrightarrow> v \<in> set xs \<Longrightarrow> fge v t \<Longrightarrow> t \<le> m"
proof (induction xs arbitrary: a)
  case Nil
  then show ?case by simp
next
  case (Cons y ys)
  have n: "fmax y a \<noteq> NaN" using Cons.prems(1) by (auto simp: fold_fmax_NaN)
  show ?case
  proof (cases "v = y")
    case True
    then have "fge (fmax y a) t" using Cons.prems(3) n by (simp add: fmax_fge2)
    then show ?thesis using Cons.prems(1) fold_fmax_acc by simp
  next
    case False
    then show ?thesis using Cons by auto
  qed
qed

text \<open>No voxel exceeds the maximum.\<close>

lemma np_max_upper: "np_max vol = Inr (Finite m) \<Longrightarrow> v \<in> set vol \<Longrightarrow> fge v t \<Longrightarrow> t \<le> m"
  by (cases vol) (auto dest: fold_fmax_acc fold_fmax_mem)

text \<open>The entry of index \<open>i\<close> for the step \<open>s\<close>.\<close>

lemma thresholds_step:
  "float64 (m / 200) \<noteq> 0 \<Longrightarrow>
     thresholds (Finite m) =
       Inr (map (\<lambda>i. float64 (0 + float64 (real i * float64 (m / 200))))
             [0..<nat \<lceil>float64 (float64 (m - 0) / float64 (m / 200))\<rceil>])"
  by (simp add: thresholds_def np_arange_def)

lemma thresholds_pos:
  assumes "0 < m"
  shows "\<exists>n. (n = 200 \<or> n = 201) \<and>
     thresholds (Finite m) =
       Inr (map (\<lambda>i. float64 (0 + float64 (real i * float64 (m / 200)))) [0..<n])"
proof -
  have "0 < float64 (m / 200)" using assms by (simp add: float64_pos)
  then have s: "float64 (m / 200) \<noteq> 0" by simp
  have "nat \<lceil>float64 (float64 (m - 0) / float64 (m / 200))\<rceil> = 200
      \<or> nat \<lceil>float64 (float64 (m - 0) / float64 (m / 200))\<rceil> = 201"
    using arange_count [OF assms] by auto
  then show ?thesis using thresholds_step [OF s] by metis
qed

lemma thresholds_zero: "thresholds (Finite 0) = Inl ValueError"
  by (simp add: thresholds_def np_arange_def float64_zero)

lemma threshold_loop_length: "length (threshold_loop vol ts) = length ts"
  by (simp add: threshold_loop_def)

lemma threshold_loop_nth:
  "n < length ts \<Longrightarrow> threshold_loop vol ts ! n = (n, ts ! n, astype_int32 (ge_mask vol (ts ! n)))"
  by (simp add: threshold_loop_def nth_enumerate_eq)

lemma quantize_Inr:
  "quantize density = Inr st \<Longrightarrow>
     \<exists>m ts. np_max (log_density_of density) = Inr (Finite m) \<and> m \<noteq> 0
       \<and> thresholds (Finite m) = Inr ts \<and> st = threshold_loop (log_density_of density) ts"
proof -
  assume q: "quantize density = Inr st"
  then obtain M ts where mx: "np_max (log_density_of density) = Inr M"
    and th: "thresholds M = Inr ts" and st: "st = threshold_loop (log_density_of density) ts"
    by (auto simp: quantize_def Let_def split: sum.splits)
  from th obtain m where m: "M = Finite m" by (cases M) (simp_all add: thresholds_def)
  have "m \<noteq> 0" using th m thresholds_zero by auto
  then show ?thesis using mx th st m by blast
qed

lemma quantize_ok:
  "np_max (log_density_of density) = Inr (Finite m) \<Longrightarrow> thresholds (Finite m) = Inr ts \<Longrightarrow>
     quantize density = Inr (threshold_loop (log_density_of density) ts)"
  by (simp add: quantize_def)

lemma np_log10_shift: "0 \<le> d \<Longrightarrow> np_log10 (d + 1) = Finite (log 10 (d + 1))"
  by (simp add: np_log10_def)

lemma fge_mono: "fge v t \<Longrightarrow> t' \<le> t \<Longrightarrow> fge v t'"
  by (cases v) auto

lemma mask_nth: "k < length vol \<Longrightarrow> astype_int32 (ge_mask vol t) ! k = of_bool (fge (vol ! k) t)"
  by (simp add: astype_int32_def ge_mask_def)

lemma mask_values: "x \<in> set (astype_int32 msk) \<Longrightarrow> x = 0 \<or> x = 1"
  by (auto simp: astype_int32_def)

lemma np_max_nonneg:
  assumes "\<forall>d\<in>set density. 0 \<le> d" and "np_max (log_density_of density) = Inr (Finite m)"
  shows "0 \<le> m"
proof -
  have "log_density_of density \<noteq> []" using assms(2) by auto
  then have "density \<noteq> []" by (simp add: log_density_of_def)
  then obtain d where d: "d \<in> set density" by (cases density) auto
  then have "0 \<le> d" using assms(1) by simp
  then have "fge (np_log10 (d + 1)) 0" by (simp add: np_log10_shift)
  moreover have "np_log10 (d + 1) \<in> set (log_density_of density)"
    using d by (auto simp: log_density_of_def)
  ultimately show ?thesis using assms(2) np_max_upper by blast
qed

text \<open>
  What the quantizer returns for a density volume without negative voxels: the maximum
  is positive, and the stack has 200 or 201 entries over the rounded thresholds.
\<close>

lemma quantize_nonneg:
  assumes "quantize density = Inr st" and "\<forall>d\<in>set density. 0 \<le> d"
  shows "\<exists>m n. 0 < m \<and> (n = 200 \<or> n = 201)
       \<and> np_max (log_density_of density) = Inr (Finite m)
       \<and> st = threshold_loop (log_density_of density)
                (map (\<lambda>i. float64 (0 + float64 (real i * float64 (m / 200)))) [0..<n])"
proof -
  obtain m ts where mx: "np_max (log_density_of density) = Inr (Finite m)" and m0: "m \<noteq> 0"
    and th: "thresholds (Finite m) = Inr ts"
    and st: "st = threshold_loop (log_density_of density) ts"
    using quantize_Inr [OF assms(1)] by blast
  have "0 \<le> m" using assms(2) mx by (rule np_max_nonneg)
  then have m: "0 < m" using m0 by simp
  obtain n where n: "n = 200 \<or> n = 201"
    and th': "thresholds (Finite m)
        = Inr (map (\<lambda>i. float64 (0 + float64 (real i * float64 (m / 200)))) [0..<n])"
    using thresholds_pos [OF m] by blast
  have "ts = map (\<lambda>i. float64 (0 + float64 (real i * float64 (m / 200)))) [0..<n]"
    using th th' by simp
  then show ?thesis using m n mx st by blast
qed

lemma quantize_pos:
  assumes "np_max (log_density_of density) = Inr (Finite m)" and "0 < m"
  shows "\<exists>n. (n = 200 \<or> n = 201)
       \<and> quantize density = Inr (threshold_loop (log_density_of density)
            (map (\<lambda>i. float64 (0 + float64 (real i * float64 (m / 200)))) [0..<n]))"
proof -
  obtain n where n: "n = 200 \<or> n = 201"
    and th: "thresholds (Finite m)
        = Inr (map (\<lambda>i. float64 (0 + float64 (real i * float64 (m / 200)))) [0..<n])"
    using thresholds_pos [OF assms(2)] by blast
  show ?thesis using n quantize_ok [OF assms(1) th] by blast
qed

lemma np_max_ex: "np_max (log_density_of [0, 9]) = Inr (Finite 1)"
  by (simp add: log_density_of_def np_log10_def)

subsection \<open>The log transform\<close>

text \<open>
  Claim C7. For a smoothed density volume with no negative voxel, the log-transformed
  volume is \<open>log10 (density + 1)\<close> voxel by voxel, and every voxel of it is a finite
  number that is not negative: neither \<^verbatim>\<open>nan\<close> nor \<^verbatim>\<open>-inf\<close> occurs.
\<close>

theorem log_transform_finite_nonneg:
  assumes "\<forall>d\<in>set density. 0 \<le> d"
  shows "log_density_of density = map (\<lambda>d. Finite (log 10 (d + 1))) density
       \<and> (\<forall>v\<in>set (log_density_of density). \<exists>r. v = Finite r \<and> 0 \<le> r)"
  using assms by (auto simp: log_density_of_def np_log10_shift)

theorem log_transform_finite_nonneg_witness:
  "(0::real) \<le> 0 \<and> (0::real) \<le> 9 \<and> log_density_of [0, 9] = [Finite 0, Finite 1]
    \<and> (\<exists>r. log_density_of [0, 9] ! 1 = Finite r \<and> 0 \<le> r)"
  using log_transform_finite_nonneg [of "[0, 9]"] by simp

subsection \<open>The stack is monotonic\<close>

lemma list2_nth: "length xs = 2 \<Longrightarrow> xs = [xs ! 0, xs ! 1]"
  by (cases xs; cases "tl xs") auto

lemma threshold_1_bounds:
  "0 < float64 (0 + float64 (real 1 * float64 (1 / 200)))"
  "float64 (0 + float64 (real 1 * float64 (1 / 200))) \<le> 1"
proof -
  have s: "0 < float64 (1 / 200)" "float64 (1 / 200) \<le> 1001 / 1000 * (1 / 200)"
    using float64_pos [of "1 / 200"] float64_bounds(2) [of "1 / 200"] by simp_all
  have y: "0 < float64 (float64 (1 / 200))"
    "float64 (float64 (1 / 200)) \<le> 1001 / 1000 * float64 (1 / 200)"
    using float64_pos [OF s(1)] float64_bounds(2) [OF s(1)] by simp_all
  have t: "0 < float64 (float64 (float64 (1 / 200)))"
    "float64 (float64 (float64 (1 / 200))) \<le> 1001 / 1000 * float64 (float64 (1 / 200))"
    using float64_pos [OF y(1)] float64_bounds(2) [OF y(1)] by simp_all
  show "0 < float64 (0 + float64 (real 1 * float64 (1 / 200)))" using t(1) by simp
  have "float64 (float64 (float64 (1 / 200))) \<le> 1" using s(2) y(2) t(2) by linarith
  then show "float64 (0 + float64 (real 1 * float64 (1 / 200))) \<le> 1" by simp
qed

text \<open>
  Claim C1. For a density volume with no negative voxel (every volume the run builds),
  whenever the quantizer emits a stack: the entry at index \<open>n\<close> carries the index \<open>n\<close>,
  the threshold \<open>t\<^sub>n\<close> that \<^verbatim>\<open>np.arange\<close> gives for the maximum of the log-density, and a mask
  with one integer for every voxel, which is 1 where \<open>log10 (density + 1) \<ge> t\<^sub>n\<close> and 0
  elsewhere; for indices \<open>i < j\<close> every voxel that is 1 in the mask at \<open>j\<close> is 1 in the
  mask at \<open>i\<close>; and the thresholds increase strictly with the index.
\<close>

theorem threshold_stack_monotone:
  assumes "quantize density = Inr st" and "\<forall>d\<in>set density. 0 \<le> d"
    and "i < j" and "j < length st"
  shows "(\<forall>n<length st. fst (st ! n) = n \<and> length (snd (snd (st ! n))) = length density
            \<and> (\<forall>k<length density. snd (snd (st ! n)) ! k
                  = (if fst (snd (st ! n)) \<le> log 10 (density ! k + 1) then 1 else 0)))
       \<and> (\<exists>m. np_max (log_density_of density) = Inr (Finite m) \<and> 0 < m
            \<and> (\<forall>n<length st. fst (snd (st ! n))
                  = float64 (0 + float64 (real n * float64 (m / 200)))))
       \<and> (\<forall>k<length density. snd (snd (st ! j)) ! k = 1 \<longrightarrow> snd (snd (st ! i)) ! k = 1)
       \<and> fst (snd (st ! i)) < fst (snd (st ! j))"
proof -
  let ?vol = "log_density_of density"
  obtain m n where m: "0 < m" and n: "n = 200 \<or> n = 201"
    and mx: "np_max ?vol = Inr (Finite m)"
    and st: "st = threshold_loop ?vol
               (map (\<lambda>i. float64 (0 + float64 (real i * float64 (m / 200)))) [0..<n])"
    using quantize_nonneg [OF assms(1,2)] by blast
  define t where "t = (\<lambda>i. float64 (0 + float64 (real i * float64 (m / 200))))"
  have st': "st = threshold_loop ?vol (map t [0..<n])" using st by (simp add: t_def)
  have len: "length st = n" using st' by (simp add: threshold_loop_length)
  have nth: "st ! k = (k, t k, astype_int32 (ge_mask ?vol (t k)))" if "k < n" for k
    using that st' by (simp add: threshold_loop_nth)
  have j: "j < n" and i: "i < n" using assms(3,4) len by simp_all
  have "j \<le> 200" using j n by auto
  moreover have "0 < float64 (m / 200)" using m by (simp add: float64_pos)
  ultimately have lt: "t i < t j"
    unfolding t_def using assms(3) by (simp only: arange_spacing)
  have vol: "?vol ! k = Finite (log 10 (density ! k + 1))" if "k < length density" for k
    using that assms(2) by (simp add: log_density_of_def np_log10_shift)
  have ind: "astype_int32 (ge_mask ?vol u) ! k = (if u \<le> log 10 (density ! k + 1) then 1 else 0)"
    if "k < length density" for k u
  proof -
    have "k < length ?vol" using that by (simp add: log_density_of_def)
    then show ?thesis by (simp add: mask_nth vol [OF that])
  qed
  have p1: "\<forall>k<length st. fst (st ! k) = k \<and> length (snd (snd (st ! k))) = length density
            \<and> (\<forall>v<length density. snd (snd (st ! k)) ! v
                  = (if fst (snd (st ! k)) \<le> log 10 (density ! v + 1) then 1 else 0))"
  proof (intro allI impI)
    fix k assume "k < length st"
    then have k: "k < n" using len by simp
    have "length (astype_int32 (ge_mask ?vol (t k))) = length density"
      by (simp add: astype_int32_def ge_mask_def log_density_of_def)
    then show "fst (st ! k) = k \<and> length (snd (snd (st ! k))) = length density
            \<and> (\<forall>v<length density. snd (snd (st ! k)) ! v
                  = (if fst (snd (st ! k)) \<le> log 10 (density ! v + 1) then 1 else 0))"
      using ind by (simp add: nth [OF k])
  qed
  have p0: "\<exists>m. np_max ?vol = Inr (Finite m) \<and> 0 < m
            \<and> (\<forall>k<length st. fst (snd (st ! k))
                  = float64 (0 + float64 (real k * float64 (m / 200))))"
  proof -
    have "\<forall>k<length st. fst (snd (st ! k)) = float64 (0 + float64 (real k * float64 (m / 200)))"
      using len nth by (simp add: t_def)
    then show ?thesis using mx m by blast
  qed
  have p2: "\<forall>k<length density. snd (snd (st ! j)) ! k = 1 \<longrightarrow> snd (snd (st ! i)) ! k = 1"
  proof (intro allI impI)
    fix k assume k: "k < length density" and one: "snd (snd (st ! j)) ! k = 1"
    have kv: "k < length ?vol" using k by (simp add: log_density_of_def)
    have "fge (?vol ! k) (t j)" using one kv by (simp add: nth [OF j] mask_nth)
    then have "fge (?vol ! k) (t i)" using lt fge_mono by (meson less_imp_le)
    then show "snd (snd (st ! i)) ! k = 1" using kv by (simp add: nth [OF i] mask_nth)
  qed
  have p3: "fst (snd (st ! i)) < fst (snd (st ! j))"
    using lt by (simp add: nth [OF i] nth [OF j])
  show ?thesis using p1 p0 p2 p3 by blast
qed

theorem threshold_stack_monotone_witness:
  "\<exists>st. quantize [0, 9] = Inr st \<and> (0::real) \<le> 0 \<and> (0::real) \<le> 9 \<and> (0::nat) < 1
     \<and> 1 < length st
     \<and> fst (st ! 0) = 0 \<and> fst (snd (st ! 0)) = 0 \<and> snd (snd (st ! 0)) = [1, 1]
     \<and> fst (st ! 1) = 1 \<and> 0 < fst (snd (st ! 1)) \<and> snd (snd (st ! 1)) = [0, 1]"
proof -
  obtain n st where n: "n = 200 \<or> n = 201" and q: "quantize [0, 9] = Inr st"
    and st: "st = threshold_loop (log_density_of [0, 9])
               (map (\<lambda>i. float64 (0 + float64 (real i * float64 (1 / 200)))) [0..<n])"
    using quantize_pos [OF np_max_ex] by auto
  have l: "1 < length st" using n st by (auto simp: threshold_loop_length)
  have l0: "0 < length st" using l by linarith
  have d: "\<forall>d\<in>set [0, 9::real]. 0 \<le> d" by simp
  have "(0::nat) < 1" by simp
  note main = threshold_stack_monotone [OF q d this l]
  from main obtain m where mx: "np_max (log_density_of [0, 9]) = Inr (Finite m)"
    and ts: "\<forall>n<length st. fst (snd (st ! n)) = float64 (0 + float64 (real n * float64 (m / 200)))"
    by blast
  have m1: "m = 1" using mx np_max_ex by simp
  have t0: "fst (snd (st ! 0)) = 0" using ts l0 by (simp add: float64_zero)
  have t1: "fst (snd (st ! 1)) = float64 (0 + float64 (real 1 * float64 (1 / 200)))"
    using ts l m1 by simp
  have t1b: "0 < fst (snd (st ! 1))" "fst (snd (st ! 1)) \<le> 1"
    using threshold_1_bounds by (simp_all only: t1)
  from main l0 have e0: "fst (st ! 0) = 0" "length (snd (snd (st ! 0))) = 2"
    "\<forall>k<2. snd (snd (st ! 0)) ! k = (if fst (snd (st ! 0)) \<le> log 10 ([0, 9] ! k + 1) then 1 else 0)"
    by simp_all
  from main l have e1: "fst (st ! 1) = 1" "length (snd (snd (st ! 1))) = 2"
    "\<forall>k<2. snd (snd (st ! 1)) ! k = (if fst (snd (st ! 1)) \<le> log 10 ([0, 9] ! k + 1) then 1 else 0)"
    by simp_all
  have "snd (snd (st ! 0)) ! 0 = 1" "snd (snd (st ! 0)) ! 1 = 1"
    using e0(3) t0 by simp_all
  then have v0: "snd (snd (st ! 0)) = [1, 1]"
    using list2_nth [OF e0(2)] by simp
  have "snd (snd (st ! 1)) ! 0 = 0" "snd (snd (st ! 1)) ! 1 = 1"
    using e1(3) t1b by simp_all
  then have v1: "snd (snd (st ! 1)) = [0, 1]"
    using list2_nth [OF e1(2)] by simp
  show ?thesis using q l e0(1) e1(1) t0 t1b(1) v0 v1 by auto
qed

subsection \<open>The first volume\<close>

text \<open>
  Claim C10. For a density volume with no negative voxel whose log-density maximum is
  positive, a stack is emitted, its first entry has index 0, threshold 0 and the mask
  that is 1 at every voxel, and every emitted mask holds only the integers 0 and 1.
\<close>

theorem first_volume_all_true:
  assumes "\<forall>d\<in>set density. 0 \<le> d"
    and "np_max (log_density_of density) = Inr (Finite M)" and "0 < M"
  shows "\<exists>st. quantize density = Inr st \<and> st \<noteq> []
       \<and> st ! 0 = (0, 0, replicate (length density) 1)
       \<and> (\<forall>p\<in>set st. set (snd (snd p)) \<subseteq> {0, 1})"
proof -
  let ?vol = "log_density_of density"
  obtain n where n: "n = 200 \<or> n = 201"
    and q: "quantize density = Inr (threshold_loop ?vol
              (map (\<lambda>i. float64 (0 + float64 (real i * float64 (M / 200)))) [0..<n]))"
    using quantize_pos [OF assms(2,3)] by blast
  let ?st = "threshold_loop ?vol
              (map (\<lambda>i. float64 (0 + float64 (real i * float64 (M / 200)))) [0..<n])"
  have l: "length ?st = n" by (simp add: threshold_loop_length)
  have n0: "0 < n" using n by auto
  have "ge_mask ?vol 0 = replicate (length density) True"
    using assms(1)
    by (auto simp: ge_mask_def log_density_of_def np_log10_shift map_replicate_const [symmetric]
        intro!: map_cong)
  then have z: "?st ! 0 = (0, 0, replicate (length density) 1)"
    using n0 by (simp add: threshold_loop_nth astype_int32_def float64_zero)
  have v: "\<forall>p\<in>set ?st. set (snd (snd p)) \<subseteq> {0, 1}"
    by (auto simp: threshold_loop_def dest: mask_values)
  have "?st \<noteq> []" using l n0 by auto
  then show ?thesis using q z v by blast
qed

theorem first_volume_all_true_witness:
  "(0::real) \<le> 0 \<and> (0::real) \<le> 9 \<and> np_max (log_density_of [0, 9]) = Inr (Finite 1)
   \<and> (\<exists>st. quantize [0, 9] = Inr st \<and> st \<noteq> []
         \<and> st ! 0 = (0, 0, replicate (length [0, 9::real]) 1)
         \<and> (\<forall>p\<in>set st. set (snd (snd p)) \<subseteq> {0, 1}))"
  using first_volume_all_true [of "[0, 9]" 1] np_max_ex by simp

subsection \<open>The number of thresholds\<close>

text \<open>
  Claim C2. For a positive maximum \<open>M\<close> the claim is exactly 200 thresholds, all below
  \<open>M\<close>, and 200 volumes. The number of entries of \<^verbatim>\<open>np.arange(0, M, M / 200)\<close> is the
  ceiling of a rounded quotient of \<open>M\<close> by the rounded step; it is 200 or 201
  (\<open>quantize_pos\<close>). For the maximum \<open>M = 3.5625\<close> the step is rounded down, the quotient
  is the double next above 200, and the loop writes 201 volumes.
\<close>

theorem thresholds_201_at_3_5625:
  "np_max (log_density_of [10 powr (57 / 16) - 1]) = Inr (Finite (57 / 16))
   \<and> (\<exists>st. quantize [10 powr (57 / 16) - 1] = Inr st \<and> length st = 201)"
proof -
  have mx: "np_max (log_density_of [10 powr (57 / 16) - 1]) = Inr (Finite (57 / 16))"
    by (simp add: log_density_of_def np_log10_def)
  have "float64 (57 / 3200) \<noteq> 0" by (simp add: step_eval)
  then have s: "float64 ((57 / 16) / 200) \<noteq> 0" by simp
  define ts where "ts = map (\<lambda>i. float64 (0 + float64 (real i * float64 ((57 / 16) / 200))))
             [0..<nat \<lceil>float64 (float64 (57 / 16 - 0) / float64 ((57 / 16) / 200))\<rceil>]"
  have th: "thresholds (Finite (57 / 16)) = Inr ts"
    unfolding ts_def by (rule thresholds_step [OF s])
  have q: "quantize [10 powr (57 / 16) - 1]
      = Inr (threshold_loop (log_density_of [10 powr (57 / 16) - 1]) ts)"
    by (rule quantize_ok [OF mx th])
  have "length ts = 201"
    unfolding ts_def by (simp only: count_eval length_map length_upt)
  then have "length (threshold_loop (log_density_of [10 powr (57 / 16) - 1]) ts) = 201"
    by (simp add: threshold_loop_length)
  then have "\<exists>st. quantize [10 powr (57 / 16) - 1] = Inr st \<and> length st = 201"
    using q by blast
  then show ?thesis using mx by blast
qed

subsection \<open>The all-zero density volume\<close>

lemma quantize_zero: "quantize (replicate n 0) = Inl ValueError"
proof (cases n)
  case 0
  then show ?thesis by (simp add: quantize_def log_density_of_def)
next
  case (Suc k)
  have f: "(fmax (Finite 0) ^^ j) (Finite 0) = Finite 0" for j
    by (induction j) simp_all
  have "np_max (log_density_of (replicate n 0)) = Inr (Finite 0)"
    using Suc by (simp add: log_density_of_def np_log10_def f)
  then show ?thesis by (simp add: quantize_def thresholds_zero)
qed

text \<open>
  Claim C3. A bundle that the length filter empties gives the visitation count 0 at every
  voxel; smoothing keeps it 0, the log-density maximum is 0 and so is the step
  \<open>0 / 200\<close>. The claim is that the loop then emits no volume and raises nothing. The
  code instead stops in \<^verbatim>\<open>np.arange\<close> with \<^verbatim>\<open>ValueError\<close>: for every all-zero density
  volume the quantizer returns that error, and so does the first branch of the
  post-processing for a bundle of one streamline of length 0.5.
\<close>

theorem quantize_zero_density_raises:
  "quantize (replicate n 0) = Inl ValueError
   \<and> epfl_branch ex_env
        \<lparr>streamlines = [[(0, 0, 0), (1 / 2, 0, 0)]], vol_epfl = None, vol_vumc = None\<rparr>
       = Inl ValueError"
proof -
  have "density_stack ex_env [] = quantize (map real (replicate (length (voxels (4, 1, 1))) 0))"
    by (simp add: density_stack_def density_map_empty ex_env_def del: One_nat_def)
  then have "density_stack ex_env [] = Inl ValueError"
    by (simp add: quantize_zero)
  then show ?thesis
    by (simp add: quantize_zero epfl_branch_def ex_lf_short)
qed

section \<open>Properties of the post-processing\<close>

lemma ex_max: "np_max (log_density_of [1, 0, 1, 0]) = Inr (Finite (log 10 2))"
  by (simp add: log_density_of_def np_log10_def)

lemma ex_epfl:
  "\<exists>stack. epfl_branch ex_env
     \<lparr>streamlines = [[(0, 0, 0), (2, 0, 0)], [(0, 0, 0), (1 / 2, 0, 0)]],
      vol_epfl = None, vol_vumc = None\<rparr>
   = Inr \<lparr>streamlines = [[(0, 0, 0), (2, 0, 0)]], vol_epfl = Some stack, vol_vumc = None\<rparr>"
proof -
  have "0 < log 10 (2::real)" by simp
  then obtain stack where "quantize [1, 0, 1, 0] = Inr stack"
    using quantize_pos [OF ex_max] by blast
  then have "epfl_branch ex_env
     \<lparr>streamlines = [[(0, 0, 0), (2, 0, 0)], [(0, 0, 0), (1 / 2, 0, 0)]],
      vol_epfl = None, vol_vumc = None\<rparr>
   = Inr \<lparr>streamlines = [[(0, 0, 0), (2, 0, 0)]], vol_epfl = Some stack, vol_vumc = None\<rparr>"
    by (simp add: epfl_branch_def density_stack_def ex_env_def ex_lf ex_dm del: One_nat_def)
  then show ?thesis by blast
qed

text \<open>
  Claim C9. Filtering by length twice is filtering once. In the mode \<^verbatim>\<open>"ALL"\<close> the
  second branch starts from the variable the first branch has already filtered and
  filters it again; the bundle it hands to the connectivity filter is the one obtained
  by filtering the tracker's output once.
\<close>

theorem length_filter_idempotent_all_mode:
  "length_filter (length_filter ss) = length_filter ss
   \<and> (epfl_branch e \<lparr>streamlines = ss, vol_epfl = None, vol_vumc = None\<rparr> = Inr s1 \<longrightarrow>
        streamlines s1 = length_filter ss
      \<and> streamlines (vumc_length_filter s1) = length_filter ss
      \<and> streamlines (vumc_length_filter s1)
          = streamlines (vumc_length_filter \<lparr>streamlines = ss, vol_epfl = None, vol_vumc = None\<rparr>)
      \<and> postprocess e ''ALL'' ss = vumc_connectivity e (vumc_length_filter s1))"
proof -
  have i: "length_filter (length_filter ss) = length_filter ss" by (rule length_filter_idem)
  have "streamlines s1 = length_filter ss
      \<and> streamlines (vumc_length_filter s1) = length_filter ss
      \<and> streamlines (vumc_length_filter s1)
          = streamlines (vumc_length_filter \<lparr>streamlines = ss, vol_epfl = None, vol_vumc = None\<rparr>)
      \<and> postprocess e ''ALL'' ss = vumc_connectivity e (vumc_length_filter s1)"
    if h: "epfl_branch e \<lparr>streamlines = ss, vol_epfl = None, vol_vumc = None\<rparr> = Inr s1"
  proof -
    have s: "streamlines s1 = length_filter ss"
      using h by (auto simp: epfl_branch_def Let_def split: sum.splits)
    have p: "postprocess e ''ALL'' ss = vumc_connectivity e (vumc_length_filter s1)"
      using h by (simp add: postprocess_def vumc_branch_def)
    show ?thesis using s p by (simp add: vumc_length_filter_def i)
  qed
  then show ?thesis using i by blast
qed

theorem length_filter_idempotent_all_mode_witness:
  "\<exists>s1. epfl_branch ex_env
          \<lparr>streamlines = [[(0, 0, 0), (2, 0, 0)], [(0, 0, 0), (1 / 2, 0, 0)]],
           vol_epfl = None, vol_vumc = None\<rparr> = Inr s1
      \<and> streamlines (vumc_length_filter s1) = [[(0, 0, 0), (2, 0, 0)]]
      \<and> postprocess ex_env ''ALL'' [[(0, 0, 0), (2, 0, 0)], [(0, 0, 0), (1 / 2, 0, 0)]]
          = vumc_connectivity ex_env (vumc_length_filter s1)"
proof -
  obtain stack where e: "epfl_branch ex_env
     \<lparr>streamlines = [[(0, 0, 0), (2, 0, 0)], [(0, 0, 0), (1 / 2, 0, 0)]],
      vol_epfl = None, vol_vumc = None\<rparr>
   = Inr \<lparr>streamlines = [[(0, 0, 0), (2, 0, 0)]], vol_epfl = Some stack, vol_vumc = None\<rparr>"
    using ex_epfl by blast
  show ?thesis
    using length_filter_idempotent_all_mode
      [of "[[(0, 0, 0), (2, 0, 0)], [(0, 0, 0), (1 / 2, 0, 0)]]" ex_env
          "\<lparr>streamlines = [[(0, 0, 0), (2, 0, 0)]], vol_epfl = Some stack, vol_vumc = None\<rparr>"] e
    by (simp add: ex_lf)
qed

end
